theory Spec2Isabelle
  imports Complex_Main "HOL-Library.Log_Nat"
begin

section \<open>Data model\<close>

text \<open>
  The repository holds two ingestion paths over SQLite: \<open>SpendingMonitor\<close>
  (spending_monitor.py, database.py, alerts.py), which webhook_server.py and run.py
  serve, and \<open>SpendingTracker\<close> (main.py), a module of its own that nothing imports.

  Conventions of the embedding.
  \<^item> A \<open>datetime\<close> is a natural number of microseconds on the naive local time line;
    \<open>timedelta(hours=1)\<close> is \<open>hour\<close>. Every \<open>datetime.now()\<close> of the source is an
    explicit argument, one per clock read.
  \<^item> A JSON number arrives as a Python \<open>int\<close> or \<open>float\<close>. A float, a REAL of SQLite
    and the limit are rationals: the exact value of a finite binary64 number.
    The literals \<open>NaN\<close> and \<open>Infinity\<close>, which \<open>json.loads\<close> also reads, are not in the type.
    Comparisons are exact, as they are on floats. What rounds is arithmetic: the
    SUM aggregate of SQLite and the subtraction of Python are arguments of the
    embedding (\<open>arithmetic\<close>), and the theorems hold for every such pair of functions.
  \<^item> \<open>dict.get(k)\<close> on a missing key is \<open>None\<close>.
  \<^item> A table is the list of its rows in insertion order; a table whose key column is
    UNIQUE and never NULL is a map from that key. The columns \<open>id\<close>, \<open>created_at\<close>,
    \<open>last_updated\<close>, \<open>sent_at\<close> and \<open>alert_sent_at\<close> are written by SQLite and read by
    nothing in the source: they are left out.
  \<^item> The outcome of a network call (Slack POST, SMTP session) is an argument.
    Calls to the notifier are appended to a trace kept beside the database.
\<close>

type_synonym datetime = nat

definition hour :: nat where
  "hour = 3600000000"

text \<open>A JSON number as \<open>json.loads\<close> returns it, and its value.\<close>

datatype json_number = JInt int | JFloat rat

fun number_value :: "json_number \<Rightarrow> rat" where
  "number_value (JInt i) = of_int i"
| "number_value (JFloat x) = x"

text \<open>
  What \<open>sqlite3\<close> can bind as a parameter: an \<open>int\<close> must fit 64 signed bits, or
  binding raises \<open>OverflowError\<close>; every finite float is bound as it is.
\<close>

definition int64 :: "int \<Rightarrow> bool" where
  "int64 i \<longleftrightarrow> - (2 ^ 63) \<le> i \<and> i < 2 ^ 63"

fun bindable :: "json_number \<Rightarrow> bool" where
  "bindable (JInt i) = int64 i"
| "bindable (JFloat x) = True"

text \<open>
  The arithmetic that rounds: \<open>sql_sum\<close> is SQLite's \<open>SUM\<close> over the values of a
  column of REAL affinity, in row order, for at least one row; \<open>float_sub\<close> is the
  \<open>-\<close> of two Python floats.
\<close>

record arithmetic =
  sql_sum :: "json_number list \<Rightarrow> rat"
  float_sub :: "rat \<Rightarrow> rat \<Rightarrow> rat"

text \<open>The webhook payload, \<open>webhook_data\<close>, with its \<open>metadata\<close> object.\<close>

record metadata =
  cost :: "json_number option"
  totalTokens :: "int option"

record webhook_data =
  w_request_id :: "string option"
  w_user_id :: "string option"
  w_model :: "string option"
  w_provider :: "string option"
  w_metadata :: "metadata option"

text \<open>The dict \<open>request_data\<close> built by \<open>process_webhook_data\<close>; also a row of \<open>api_requests\<close>.\<close>

record request_data =
  request_id :: "string option"
  timestamp :: datetime
  cost_usd :: json_number
  model :: "string option"
  provider :: "string option"
  user_id :: "string option"
  tokens_total :: "int option"

text \<open>A row of \<open>alerts_sent\<close>. The table has no UNIQUE constraint.\<close>

record alert_row =
  al_hour_start :: datetime
  al_alert_type :: string
  al_total_spend :: rat
  al_limit_exceeded :: rat

text \<open>
  \<open>hourly_spending\<close> has \<open>UNIQUE(hour_start)\<close> and is written with INSERT OR REPLACE:
  a map from \<open>hour_start\<close> to \<open>(total_cost_usd, request_count)\<close>.
\<close>

record spending_database =
  api_requests :: "request_data list"
  hourly_spending :: "datetime \<rightharpoonup> (rat \<times> nat)"
  alerts_sent :: "alert_row list"

section \<open>database.py: SpendingDatabase\<close>

definition init_database :: spending_database where
  "init_database = \<lparr>api_requests = [], hourly_spending = Map.empty, alerts_sent = []\<rparr>"

text \<open>
  \<open>add_request\<close>. Binding a number that does not fit raises inside the \<open>try\<close>, and the
  \<open>except\<close> branch returns \<open>False\<close> with nothing stored. Otherwise INSERT OR IGNORE
  runs: the row is skipped, and \<open>rowcount\<close> is 0, when \<open>request_id\<close> is NULL (NOT NULL)
  or already stored (UNIQUE); \<open>timestamp\<close> and \<open>cost_usd\<close> are never NULL here. The
  result is \<open>rowcount > 0\<close>.
\<close>

definition add_request :: "request_data \<Rightarrow> spending_database \<Rightarrow> bool \<times> spending_database" where
  "add_request rd d =
     (if \<not> (bindable (cost_usd rd) \<and>
             (case tokens_total rd of None \<Rightarrow> True | Some n \<Rightarrow> int64 n))
      then (False, d)
      else if request_id rd = None \<or> request_id rd \<in> set (map request_id (api_requests d))
      then (False, d)
      else (True, d\<lparr>api_requests := api_requests d @ [rd]\<rparr>))"

text \<open>The rows selected by \<open>WHERE timestamp >= ? AND timestamp < ?\<close>.\<close>

definition rows_between :: "datetime \<Rightarrow> datetime \<Rightarrow> spending_database \<Rightarrow> request_data list" where
  "rows_between lo hi d = filter (\<lambda>r. lo \<le> timestamp r \<and> timestamp r < hi) (api_requests d)"

text \<open>\<open>COALESCE(SUM(cost_usd), 0)\<close>: \<open>SUM\<close> over no row is NULL.\<close>

definition coalesce_sum :: "arithmetic \<Rightarrow> json_number list \<Rightarrow> rat" where
  "coalesce_sum ar xs = (if xs = [] then 0 else sql_sum ar xs)"


definition update_hourly_aggregate ::
  "arithmetic \<Rightarrow> datetime \<Rightarrow> spending_database \<Rightarrow> rat \<times> spending_database" where
  "update_hourly_aggregate ar hour_start d =
     (let rows = rows_between hour_start (hour_start + hour) d;
          total_cost = coalesce_sum ar (map cost_usd rows);
          request_count = length rows
      in (total_cost,
          d\<lparr>hourly_spending := (hourly_spending d)(hour_start \<mapsto> (total_cost, request_count))\<rparr>))"

definition was_alert_sent :: "datetime \<Rightarrow> string \<Rightarrow> spending_database \<Rightarrow> bool" where
  "was_alert_sent hour_start alert_type d =
     (0 < length (filter (\<lambda>a. al_hour_start a = hour_start \<and> al_alert_type a = alert_type)
                         (alerts_sent d)))"

definition record_alert_sent ::
  "datetime \<Rightarrow> string \<Rightarrow> rat \<Rightarrow> rat \<Rightarrow> spending_database \<Rightarrow> spending_database" where
  "record_alert_sent hour_start alert_type total_spend limit_exceeded d =
     d\<lparr>alerts_sent := alerts_sent d @
          [\<lparr>al_hour_start = hour_start, al_alert_type = alert_type,
            al_total_spend = total_spend, al_limit_exceeded = limit_exceeded\<rparr>]\<rparr>"

section \<open>alerts.py: AlertSystem\<close>

record alert_system =
  slack_webhook_url :: "string option"
  smtp_server :: "string option"
  email_username :: "string option"
  email_password :: "string option"
  alert_email_to :: "string option"

text \<open>Python truth of an optional string: \<open>None\<close> and the empty string are false.\<close>

definition truthy :: "string option \<Rightarrow> bool" where
  "truthy s = (case s of None \<Rightarrow> False | Some v \<Rightarrow> v \<noteq> [])"

record spending_data =
  hour_start :: datetime
  total_spend :: rat
  limit :: rat
  overage :: rat
  request_count :: nat

text \<open>
  What the network does with one dispatch: whether the Slack POST and the SMTP session
  complete without an exception.
\<close>

record network =
  post_ok :: bool
  smtp_ok :: bool

record alert_results =
  slack :: bool
  email :: bool

definition send_slack_alert :: "alert_system \<Rightarrow> network \<Rightarrow> spending_data \<Rightarrow> bool" where
  "send_slack_alert a net data = (if \<not> truthy (slack_webhook_url a) then False else post_ok net)"

definition send_email_alert :: "alert_system \<Rightarrow> network \<Rightarrow> spending_data \<Rightarrow> bool" where
  "send_email_alert a net data =
     (if \<not> (truthy (smtp_server a) \<and> truthy (email_username a) \<and>
             truthy (email_password a) \<and> truthy (alert_email_to a))
      then False else smtp_ok net)"

definition send_alerts :: "alert_system \<Rightarrow> network \<Rightarrow> spending_data \<Rightarrow> alert_results" where
  "send_alerts a net data =
     \<lparr>slack = send_slack_alert a net data, email = send_email_alert a net data\<rparr>"

section \<open>spending_monitor.py: SpendingMonitor\<close>

text \<open>
  The monitor object, with the trace of the calls made to \<open>send_alerts\<close> (payload and
  per-channel result), oldest first.
\<close>

record spending_monitor =
  db :: spending_database
  alerts :: alert_system
  hourly_limit :: rat
  dispatched :: "(spending_data \<times> alert_results) list"

definition get_current_hour :: "datetime \<Rightarrow> datetime" where
  "get_current_hour now = now - now mod hour"

definition get_request_count_for_hour :: "datetime \<Rightarrow> datetime \<Rightarrow> spending_database \<Rightarrow> nat" where
  "get_request_count_for_hour hs he d = length (rows_between hs he d)"

text \<open>
  \<open>handle_limit_exceeded\<close> is a check followed by an action. The action, lines 78 to
  105: build the payload, call the notifier, insert the alert row.
\<close>

definition dispatch_and_record ::
  "arithmetic \<Rightarrow> network \<Rightarrow> datetime \<Rightarrow> rat \<Rightarrow> spending_monitor \<Rightarrow> spending_monitor" where
  "dispatch_and_record ar net hs spend m =
     (let ov = float_sub ar spend (hourly_limit m);
          hour_end = hs + hour;
          cnt = get_request_count_for_hour hs hour_end (db m);
          data = \<lparr>hour_start = hs, total_spend = spend, limit = hourly_limit m,
                  overage = ov, request_count = cnt\<rparr>;
          res = send_alerts (alerts m) net data
      in m\<lparr>db := record_alert_sent hs ''hourly_limit_exceeded'' spend ov (db m),
           dispatched := dispatched m @ [(data, res)]\<rparr>)"

definition handle_limit_exceeded ::
  "arithmetic \<Rightarrow> network \<Rightarrow> datetime \<Rightarrow> rat \<Rightarrow> spending_monitor \<Rightarrow> spending_monitor" where
  "handle_limit_exceeded ar net hs spend m =
     (if was_alert_sent hs ''hourly_limit_exceeded'' (db m) then m
      else dispatch_and_record ar net hs spend m)"

text \<open>\<open>webhook_data.get('metadata', {})\<close> and \<open>metadata.get('cost', 0.0)\<close>.\<close>

definition metadata_of :: "webhook_data \<Rightarrow> metadata" where
  "metadata_of wd =
     (case w_metadata wd of None \<Rightarrow> \<lparr>cost = None, totalTokens = None\<rparr> | Some x \<Rightarrow> x)"

definition cost_of :: "metadata \<Rightarrow> json_number" where
  "cost_of md = (case cost md of None \<Rightarrow> JFloat 0 | Some x \<Rightarrow> x)"

text \<open>
  \<open>process_webhook_data\<close>. \<open>now_row\<close> is the clock read that stamps the row (line 30),
  \<open>now_hour\<close> the later one inside \<open>get_current_hour\<close> (line 66). The \<open>except\<close> branch
  of this function, which returns \<open>False\<close>, is reached by a payload of another shape
  than \<open>webhook_data\<close> or by a failing database, neither of which the embedding
  contains.
\<close>

definition process_webhook_data ::
  "arithmetic \<Rightarrow> webhook_data \<Rightarrow> datetime \<Rightarrow> datetime \<Rightarrow> network \<Rightarrow> spending_monitor \<Rightarrow>
   bool \<times> spending_monitor" where
  "process_webhook_data ar wd now_row now_hour net m =
     (let md = metadata_of wd;
          c = cost_of md
      in if number_value c \<le> 0 then (True, m)
         else
           let rd = \<lparr>request_id = w_request_id wd, timestamp = now_row, cost_usd = c,
                     model = w_model wd, provider = w_provider wd, user_id = w_user_id wd,
                     tokens_total = totalTokens md\<rparr>;
               (inserted, d1) = add_request rd (db m)
           in if \<not> inserted then (True, m)
              else
                let current_hour = get_current_hour now_hour;
                    (total_hourly_spend, d2) = update_hourly_aggregate ar current_hour d1;
                    m2 = m\<lparr>db := d2\<rparr>
                in if total_hourly_spend > hourly_limit m2
                   then (True, handle_limit_exceeded ar net current_hour total_hourly_spend m2)
                   else (True, m2))"

text \<open>\<open>SpendingMonitor.__init__\<close> on a database file that does not exist yet.\<close>

definition new_monitor :: "alert_system \<Rightarrow> rat \<Rightarrow> spending_monitor" where
  "new_monitor a l = \<lparr>db = init_database, alerts = a, hourly_limit = l, dispatched = []\<rparr>"

text \<open>
  One delivery of a webhook: the payload with what the environment answers while it is
  processed: the first and the second clock read, and the network. \<open>process_all\<close>
  feeds deliveries to one monitor in order, as the loop of test_script.py and the
  server do.
\<close>

record delivery =
  d_payload :: webhook_data
  d_clock1 :: datetime
  d_clock2 :: datetime
  d_net :: network

definition process_one :: "arithmetic \<Rightarrow> delivery \<Rightarrow> spending_monitor \<Rightarrow> spending_monitor" where
  "process_one ar e m =
     snd (process_webhook_data ar (d_payload e) (d_clock1 e) (d_clock2 e) (d_net e) m)"

fun process_all :: "arithmetic \<Rightarrow> delivery list \<Rightarrow> spending_monitor \<Rightarrow> spending_monitor" where
  "process_all ar [] m = m"
| "process_all ar (e # es) m = process_all ar es (process_one ar e m)"

section \<open>webhook_server.py\<close>

text \<open>
  \<open>hmac.new(secret, payload, sha256).hexdigest()\<close> is a library function: it is the
  argument \<open>hmac_hex\<close> wherever a signature is verified. \<open>hmac.compare_digest\<close> is
  equality. The header \<open>helicone-signature\<close> and the environment variable are optional
  strings.
\<close>

definition verify_webhook_signature ::
  "(string \<Rightarrow> string \<Rightarrow> string) \<Rightarrow> string \<Rightarrow> string option \<Rightarrow> string option \<Rightarrow> bool" where
  "verify_webhook_signature hmac_hex payload signature secret =
     (if \<not> truthy signature \<or> \<not> truthy secret then False
      else (case (signature, secret) of
              (Some sg, Some sc) \<Rightarrow> hmac_hex sc payload = sg
            | _ \<Rightarrow> False))"

text \<open>
  \<open>handle_webhook\<close> after the body is read: the HTTP status it answers with. \<open>wd\<close> is
  the body parsed as JSON.
\<close>

definition handle_webhook ::
  "arithmetic \<Rightarrow> (string \<Rightarrow> string \<Rightarrow> string) \<Rightarrow> string option \<Rightarrow> string \<Rightarrow> string option \<Rightarrow>
   webhook_data \<Rightarrow> datetime \<Rightarrow> datetime \<Rightarrow> network \<Rightarrow> spending_monitor \<Rightarrow> nat \<times> spending_monitor" where
  "handle_webhook ar hmac_hex webhook_secret body signature wd now_row now_hour net m =
     (if \<not> verify_webhook_signature hmac_hex body signature webhook_secret then (401, m)
      else
        let (success, m1) = process_webhook_data ar wd now_row now_hour net m
        in if success then (200, m1) else (500, m1))"

section \<open>main.py: SpendingTracker\<close>

text \<open>
  The second ingestion path, with its own tables. Its functions are embedded as they
  are written; the module itself stops at its imports, which name \<open>MimeText\<close> and
  \<open>MimeMultipart\<close> where \<open>email.mime\<close> has \<open>MIMEText\<close> and \<open>MIMEMultipart\<close>.
\<close>

text \<open>The module-level configuration read from the environment.\<close>

record config =
  WEBHOOK_SECRET :: "string option"
  HOURLY_THRESHOLD :: rat
  SLACK_WEBHOOK_URL :: "string option"
  EMAIL_USERNAME :: "string option"
  EMAIL_PASSWORD :: "string option"

text \<open>
  A row of \<open>spending_log\<close> (\<open>request_id\<close> is UNIQUE and may be NULL). The hour bucket,
  the string \<open>%Y-%m-%d-%H\<close> in the source, is the number of the hour.
\<close>

record spending_log_row =
  sl_request_id :: "string option"
  sl_timestamp :: datetime
  sl_hour_bucket :: nat
  sl_cost :: json_number
  sl_model :: string
  sl_user_id :: "string option"
  sl_tokens_total :: int

text \<open>
  A row of \<open>hourly_alerts\<close>, keyed by its UNIQUE \<open>hour_bucket\<close>; \<open>alert_sent\<close> defaults
  to FALSE.
\<close>

record hourly_alert =
  total_cost :: rat
  alert_sent :: bool

record spending_tracker =
  spending_log :: "spending_log_row list"
  hourly_alerts :: "nat \<rightharpoonup> hourly_alert"

definition new_tracker :: spending_tracker where
  "new_tracker = \<lparr>spending_log = [], hourly_alerts = Map.empty\<rparr>"

definition get_hour_bucket :: "datetime \<Rightarrow> nat" where
  "get_hour_bucket ts = ts div hour"

datatype error = OverflowError

text \<open>
  \<open>log_spending\<close>. Binding a number that does not fit raises; the function rolls back
  and raises again, and the tables are as before. Otherwise INSERT OR REPLACE deletes
  the row that holds the same non-NULL \<open>request_id\<close> and inserts the new one; on
  \<open>hourly_alerts\<close> it replaces the row of the hour bucket, so \<open>alert_sent\<close> is FALSE again
  in the new row. \<open>SUM(cost)\<close> over no rows is NULL, and \<open>NULL or 0.0\<close> is 0.
\<close>

definition log_spending ::
  "arithmetic \<Rightarrow> webhook_data \<Rightarrow> datetime \<Rightarrow> spending_tracker \<Rightarrow> error + rat \<times> spending_tracker" where
  "log_spending ar request_data now t =
     (let hb = get_hour_bucket now;
          rid = w_request_id request_data;
          c = cost_of (metadata_of request_data);
          mo = (case w_model request_data of None \<Rightarrow> ''unknown'' | Some x \<Rightarrow> x);
          uid = w_user_id request_data;
          total_tokens = (case totalTokens (metadata_of request_data) of None \<Rightarrow> 0 | Some x \<Rightarrow> x)
      in if \<not> (bindable c \<and> int64 total_tokens) then Inl OverflowError
         else
           let kept = (if rid = None then spending_log t
                       else filter (\<lambda>r. sl_request_id r \<noteq> rid) (spending_log t));
               rows = kept @ [\<lparr>sl_request_id = rid, sl_timestamp = now, sl_hour_bucket = hb,
                                sl_cost = c, sl_model = mo, sl_user_id = uid,
                                sl_tokens_total = total_tokens\<rparr>];
               hourly_total =
                 coalesce_sum ar (map sl_cost (filter (\<lambda>r. sl_hour_bucket r = hb) rows))
           in Inr (hourly_total,
                t\<lparr>spending_log := rows,
                  hourly_alerts := (hourly_alerts t)
                    (hb \<mapsto> \<lparr>total_cost = hourly_total, alert_sent = False\<rparr>)\<rparr>))"

definition verify_webhook_signature_main ::
  "(string \<Rightarrow> string \<Rightarrow> string) \<Rightarrow> config \<Rightarrow> string \<Rightarrow> string \<Rightarrow> bool" where
  "verify_webhook_signature_main hmac_hex cfg payload signature =
     (if \<not> truthy (WEBHOOK_SECRET cfg) then True
      else (case WEBHOOK_SECRET cfg of
              Some sc \<Rightarrow> hmac_hex sc payload = signature
            | None \<Rightarrow> True))"

section \<open>Callers of handle_limit_exceeded at the same time\<close>

text \<open>
  \<open>was_alert_sent\<close> and \<open>record_alert_sent\<close> each open a connection, run one statement
  and close it; nothing else orders two processes that serve webhooks against one
  database file. A caller of \<open>handle_limit_exceeded\<close> is therefore at one of three
  points: it has entered, it has the answer of its check, or it has returned, having
  dispatched the alert (\<open>Returned True\<close>) or found it recorded (\<open>Returned False\<close>). A
  schedule names, step by step, the caller that moves next.
\<close>

datatype progress = Entered | Checked bool | Returned bool

record caller =
  c_net :: network
  c_hour_start :: datetime
  c_total_spend :: rat
  c_progress :: progress

definition enter :: "network \<Rightarrow> datetime \<Rightarrow> rat \<Rightarrow> caller" where
  "enter net hs spend =
     \<lparr>c_net = net, c_hour_start = hs, c_total_spend = spend, c_progress = Entered\<rparr>"

definition advance :: "arithmetic \<Rightarrow> caller \<Rightarrow> spending_monitor \<Rightarrow> caller \<times> spending_monitor" where
  "advance ar c m =
     (case c_progress c of
        Entered \<Rightarrow>
          (c\<lparr>c_progress :=
               Checked (was_alert_sent (c_hour_start c) ''hourly_limit_exceeded'' (db m))\<rparr>, m)
      | Checked already \<Rightarrow>
          (c\<lparr>c_progress := Returned (\<not> already)\<rparr>,
           if already then m
           else dispatch_and_record ar (c_net c) (c_hour_start c) (c_total_spend c) m)
      | Returned claimed \<Rightarrow> (c, m))"

fun run_schedule ::
  "arithmetic \<Rightarrow> nat list \<Rightarrow> caller list \<times> spending_monitor \<Rightarrow> caller list \<times> spending_monitor" where
  "run_schedule ar [] s = s"
| "run_schedule ar (i # sched) (cs, m) =
     (if i < length cs
      then run_schedule ar sched (cs[i := fst (advance ar (cs ! i) m)], snd (advance ar (cs ! i) m))
      else run_schedule ar sched (cs, m))"

text \<open>
  The schedule in which callers \<open>k, \<dots>, n - 1\<close> run one after another: each checks and
  acts before the next moves.
\<close>

definition serial_from :: "nat \<Rightarrow> nat \<Rightarrow> nat list" where
  "serial_from k n = concat (map (\<lambda>i. [i, i]) [k..<n])"

section \<open>Vocabulary of the properties\<close>

text \<open>The row that \<open>process_webhook_data\<close> hands to \<open>add_request\<close>.\<close>

definition stored_row :: "webhook_data \<Rightarrow> datetime \<Rightarrow> request_data" where
  "stored_row wd now = \<lparr>request_id = w_request_id wd, timestamp = now,
     cost_usd = cost_of (metadata_of wd), model = w_model wd, provider = w_provider wd,
     user_id = w_user_id wd, tokens_total = totalTokens (metadata_of wd)\<rparr>"

text \<open>A payload whose numbers SQLite can bind.\<close>

definition storable :: "webhook_data \<Rightarrow> bool" where
  "storable wd \<longleftrightarrow>
     bindable (cost_of (metadata_of wd)) \<and>
     (case totalTokens (metadata_of wd) of None \<Rightarrow> True | Some n \<Rightarrow> int64 n)"

text \<open>The ledger rows of the hour that starts at \<open>H\<close>, and the keys the ledger holds.\<close>

definition bucket_rows :: "datetime \<Rightarrow> spending_database \<Rightarrow> request_data list" where
  "bucket_rows H d = rows_between H (H + hour) d"

definition request_ids :: "spending_database \<Rightarrow> string option set" where
  "request_ids d = set (map request_id (api_requests d))"

definition delivery_id :: "delivery \<Rightarrow> string option" where
  "delivery_id e = w_request_id (d_payload e)"

text \<open>
  A delivery that carries a key and the storable cost \<open>C\<close> and is processed while both
  clock reads are in the hour that starts at \<open>H\<close>.
\<close>

definition same_hour :: "datetime \<Rightarrow> json_number \<Rightarrow> delivery \<Rightarrow> bool" where
  "same_hour H C e \<longleftrightarrow>
     cost_of (metadata_of (d_payload e)) = C \<and> w_request_id (d_payload e) \<noteq> None \<and>
     storable (d_payload e) \<and>
     get_current_hour (d_clock1 e) = H \<and> get_current_hour (d_clock2 e) = H"

text \<open>
  Among the first \<open>n\<close> events of cost \<open>C\<close> each, the first one after which the total that
  SQLite returns for the hour is above \<open>T\<close>, if there is one; and the alert payload built
  at the \<open>k\<close>-th event.
\<close>

definition first_exceeding :: "arithmetic \<Rightarrow> rat \<Rightarrow> json_number \<Rightarrow> nat \<Rightarrow> nat option" where
  "first_exceeding ar T C n = List.find (\<lambda>i. T < sql_sum ar (replicate i C)) [1..<Suc n]"

definition alert_at :: "arithmetic \<Rightarrow> datetime \<Rightarrow> rat \<Rightarrow> json_number \<Rightarrow> nat \<Rightarrow> spending_data" where
  "alert_at ar H T C k =
     \<lparr>hour_start = H, total_spend = sql_sum ar (replicate k C), limit = T,
      overage = float_sub ar (sql_sum ar (replicate k C)) T, request_count = k\<rparr>"


text \<open>The \<open>(hour_start, alert_type)\<close> pairs of \<open>alerts_sent\<close>, one per row.\<close>

definition alert_keys :: "spending_database \<Rightarrow> (datetime \<times> string) list" where
  "alert_keys d = map (\<lambda>a. (al_hour_start a, al_alert_type a)) (alerts_sent d)"

text \<open>The notifier calls made for the hour that starts at \<open>H\<close>.\<close>

definition dispatched_for :: "datetime \<Rightarrow> spending_monitor \<Rightarrow> (spending_data \<times> alert_results) list" where
  "dispatched_for H m = filter (\<lambda>x. hour_start (fst x) = H) (dispatched m)"

text \<open>A caller that has returned: it dispatched the alert, or it found one recorded.\<close>

definition returned :: "bool \<Rightarrow> caller \<Rightarrow> caller" where
  "returned claimed c = c\<lparr>c_progress := Returned claimed\<rparr>"

section \<open>Sample inputs\<close>

text \<open>
  Binary64 arithmetic for the sample inputs: a result is the exact one rounded to the
  nearest number with 53 significant bits, ties to the even one. \<open>binade x\<close> is the
  exponent \<open>e\<close> with \<open>2 ^ e \<le> |x| < 2 ^ (e + 1)\<close>. The sample inputs stay far from the
  largest binary64 number, beyond which a float is infinite. \<open>SUM\<close> adds the rows in
  order, from 0; a column of REAL affinity holds an integer as the float nearest to it.
\<close>

definition round_half_even :: "rat \<Rightarrow> int" where
  "round_half_even x =
     (let f = \<lfloor>x\<rfloor>; r = x - of_int f
      in if r < 1 / 2 then f else if 1 / 2 < r then f + 1 else if even f then f else f + 1)"

definition binade :: "rat \<Rightarrow> int" where
  "binade x =
     (let (a, b) = quotient_of \<bar>x\<bar>; d = bitlen a - bitlen b
      in if 2 powi d \<le> \<bar>x\<bar> then d else d - 1)"

definition binary64 :: "rat \<Rightarrow> rat" where
  "binary64 x =
     (if x = 0 then 0
      else let u = 2 powi (max (binade x) (- 1022) - 52)
           in of_int (round_half_even (x / u)) * u)"

definition binary64_arithmetic :: arithmetic where
  "binary64_arithmetic =
     \<lparr>sql_sum = foldl (\<lambda>a x. binary64 (a + binary64 (number_value x))) 0,
      float_sub = (\<lambda>a b. binary64 (a - b))\<rparr>"

text \<open>
  The payload of test_script.py with a chosen key and cost, an alert system and a
  configuration, a network on which every call fails and one on which every call
  succeeds, and a delivery whose two clock reads coincide.
\<close>

definition sample_webhook_data :: "string \<Rightarrow> json_number \<Rightarrow> webhook_data" where
  "sample_webhook_data rid c =
     \<lparr>w_request_id = Some rid, w_user_id = Some ''test-user-123'', w_model = Some ''gpt-4'',
      w_provider = Some ''openai'', w_metadata = Some \<lparr>cost = Some c, totalTokens = Some 150\<rparr>\<rparr>"

definition slack_only :: alert_system where
  "slack_only = \<lparr>slack_webhook_url = Some ''https://hooks.slack.test/T0'', smtp_server = None,
     email_username = None, email_password = None, alert_email_to = None\<rparr>"

definition sample_config :: config where
  "sample_config = \<lparr>WEBHOOK_SECRET = None, HOURLY_THRESHOLD = 10,
     SLACK_WEBHOOK_URL = Some ''https://hooks.slack.test/T0'', EMAIL_USERNAME = None,
     EMAIL_PASSWORD = None\<rparr>"

definition offline :: network where
  "offline = \<lparr>post_ok = False, smtp_ok = False\<rparr>"

definition online :: network where
  "online = \<lparr>post_ok = True, smtp_ok = True\<rparr>"

definition delivered :: "string \<Rightarrow> json_number \<Rightarrow> datetime \<Rightarrow> delivery" where
  "delivered rid c now =
     \<lparr>d_payload = sample_webhook_data rid c, d_clock1 = now, d_clock2 = now, d_net = offline\<rparr>"

text \<open>
  A delivery whose row is stamped in the last microsecond of hour 0 and whose
  \<open>get_current_hour\<close> reads the clock in the first microsecond of hour 1.
\<close>

definition delivered_across :: "string \<Rightarrow> json_number \<Rightarrow> delivery" where
  "delivered_across rid c =
     \<lparr>d_payload = sample_webhook_data rid c, d_clock1 = hour - 1, d_clock2 = hour,
      d_net = offline\<rparr>"

definition five_requests :: "delivery list" where
  "five_requests = [delivered ''r1'' (JFloat (5 / 2)) 1, delivered ''r2'' (JFloat (5 / 2)) 2,
     delivered ''r3'' (JFloat (5 / 2)) 3, delivered ''r4'' (JFloat (5 / 2)) 4,
     delivered ''r5'' (JFloat (5 / 2)) 5]"



definition float_0_3 :: rat where
  "float_0_3 = 5404319552844595 / 2 ^ 54"

definition float_above_0_3 :: rat where
  "float_above_0_3 = 5404319552844596 / 2 ^ 54"

definition float_0_01 :: rat where
  "float_0_01 = 5764607523034235 / 2 ^ 59"


text \<open>
  A tracker that has logged one request of 12.50, and a monitor that has processed one
  request of 5.00, both ten microseconds into hour 0.
\<close>

definition first_log :: spending_tracker where
  "first_log =
     (case log_spending binary64_arithmetic (sample_webhook_data ''r1'' (JFloat (25 / 2))) 10
             new_tracker of
        Inr (tot, t) \<Rightarrow> t | Inl e \<Rightarrow> new_tracker)"

definition first_ingest :: spending_monitor where
  "first_ingest =
     process_one binary64_arithmetic (delivered ''abc'' (JFloat 5) 10) (new_monitor slack_only 10)"

text \<open>
  A stand-in for the keyed hash where a concrete function is needed: no property
  below depends on which function it is.
\<close>

definition stub_hmac :: "string \<Rightarrow> string \<Rightarrow> string" where
  "stub_hmac secret payload = secret @ payload"

section \<open>Single steps of the monitor\<close>

lemma hour_pos: "0 < hour"
  by (simp add: hour_def)

lemma get_current_hour_bounds:
  "get_current_hour t = H \<Longrightarrow> H \<le> t \<and> t < H + hour"
proof -
  assume h: "get_current_hour t = H"
  have "t mod hour < hour" using hour_pos by simp
  moreover have "t mod hour \<le> t" by simp
  ultimately show ?thesis using h unfolding get_current_hour_def by linarith
qed

lemma add_request_null: "request_id rd = None \<Longrightarrow> add_request rd d = (False, d)"
  by (simp add: add_request_def)

lemma process_skip:
  "number_value (cost_of (metadata_of wd)) \<le> 0 \<Longrightarrow>
   process_webhook_data ar wd n1 n2 net m = (True, m)"
  by (simp add: process_webhook_data_def Let_def)

lemma process_duplicate:
  "w_request_id wd \<in> set (map request_id (api_requests (db m))) \<Longrightarrow>
   process_webhook_data ar wd n1 n2 net m = (True, m)"
  by (simp add: process_webhook_data_def add_request_def Let_def)

lemma process_returns_true: "fst (process_webhook_data ar wd n1 n2 net m) = True"
  by (simp add: process_webhook_data_def Let_def split_beta)

lemma process_fresh:
  assumes "0 < number_value (cost_of (metadata_of wd))" "storable wd"
    "w_request_id wd = Some k"
    "Some k \<notin> set (map request_id (api_requests (db m)))"
  shows "process_webhook_data ar wd n1 n2 net m =
    (let d1 = (db m)\<lparr>api_requests := api_requests (db m) @ [stored_row wd n1]\<rparr>;
         h = get_current_hour n2;
         m2 = m\<lparr>db := snd (update_hourly_aggregate ar h d1)\<rparr>
     in (True, if fst (update_hourly_aggregate ar h d1) > hourly_limit m
               then handle_limit_exceeded ar net h (fst (update_hourly_aggregate ar h d1)) m2
               else m2))"
  using assms
  by (simp add: process_webhook_data_def add_request_def Let_def stored_row_def split_beta
        storable_def)

lemma process_all_snoc:
  "process_all ar (es @ [e]) m = process_one ar e (process_all ar es m)"
  by (induction es arbitrary: m) simp_all


lemma handle_limit_exceeded_sent:
  "was_alert_sent hs ''hourly_limit_exceeded'' (db m) \<Longrightarrow>
   handle_limit_exceeded ar net hs spend m = m"
  by (simp add: handle_limit_exceeded_def)

lemma handle_limit_exceeded_unsent:
  "\<not> was_alert_sent hs ''hourly_limit_exceeded'' (db m) \<Longrightarrow>
   handle_limit_exceeded ar net hs spend m = dispatch_and_record ar net hs spend m"
  by (simp add: handle_limit_exceeded_def)

lemma dispatch_and_record_parts:
  "db (dispatch_and_record ar net hs spend m) =
     record_alert_sent hs ''hourly_limit_exceeded'' spend (float_sub ar spend (hourly_limit m)) (db m)"
  "map fst (dispatched (dispatch_and_record ar net hs spend m)) = map fst (dispatched m) @
     [\<lparr>hour_start = hs, total_spend = spend, limit = hourly_limit m,
       overage = float_sub ar spend (hourly_limit m),
       request_count = length (bucket_rows hs (db m))\<rparr>]"
  "hourly_limit (dispatch_and_record ar net hs spend m) = hourly_limit m"
  "alerts (dispatch_and_record ar net hs spend m) = alerts m"
  by (simp_all add: dispatch_and_record_def Let_def get_request_count_for_hour_def bucket_rows_def)

lemma process_one_fresh:
  fixes ar :: arithmetic
  assumes c: "0 < number_value (cost_of (metadata_of (d_payload e)))"
    and st: "storable (d_payload e)"
    and k: "w_request_id (d_payload e) = Some k"
    and fresh: "Some k \<notin> set (map request_id (api_requests (db m)))"
    and b1: "get_current_hour (d_clock1 e) = H"
    and b2: "get_current_hour (d_clock2 e) = H"
  defines "S \<equiv> sql_sum ar (map cost_usd (bucket_rows H (db m)) @ [cost_of (metadata_of (d_payload e))])"
  defines "n \<equiv> Suc (length (bucket_rows H (db m)))"
  defines "fire \<equiv> hourly_limit m < S \<and> \<not> was_alert_sent H ''hourly_limit_exceeded'' (db m)"
  shows "api_requests (db (process_one ar e m)) =
           api_requests (db m) @ [stored_row (d_payload e) (d_clock1 e)]"
    and "hourly_spending (db (process_one ar e m)) = (hourly_spending (db m))(H \<mapsto> (S, n))"
    and "hourly_limit (process_one ar e m) = hourly_limit m"
    and "alerts (process_one ar e m) = alerts m"
    and "alerts_sent (db (process_one ar e m)) = alerts_sent (db m) @
           (if fire then [\<lparr>al_hour_start = H, al_alert_type = ''hourly_limit_exceeded'',
                           al_total_spend = S,
                           al_limit_exceeded = float_sub ar S (hourly_limit m)\<rparr>] else [])"
    and "map fst (dispatched (process_one ar e m)) = map fst (dispatched m) @
           (if fire then [\<lparr>hour_start = H, total_spend = S, limit = hourly_limit m,
                           overage = float_sub ar S (hourly_limit m), request_count = n\<rparr>] else [])"
proof -
  have inb: "H \<le> d_clock1 e \<and> d_clock1 e < H + hour"
    using b1 by (rule get_current_hour_bounds)
  have row: "timestamp (stored_row (d_payload e) (d_clock1 e)) = d_clock1 e"
     "cost_usd (stored_row (d_payload e) (d_clock1 e)) = cost_of (metadata_of (d_payload e))"
    by (simp_all add: stored_row_def)
  note defs = process_one_def process_fresh[OF c st k fresh] b2 Let_def update_hourly_aggregate_def
    rows_between_def bucket_rows_def coalesce_sum_def handle_limit_exceeded_def
    dispatch_and_record_def was_alert_sent_def record_alert_sent_def
    get_request_count_for_hour_def S_def n_def fire_def row inb
  show "api_requests (db (process_one ar e m)) =
           api_requests (db m) @ [stored_row (d_payload e) (d_clock1 e)]"
    by (simp add: defs)
  show "hourly_spending (db (process_one ar e m)) = (hourly_spending (db m))(H \<mapsto> (S, n))"
    by (simp add: defs)
  show "hourly_limit (process_one ar e m) = hourly_limit m"
    by (simp add: defs)
  show "alerts (process_one ar e m) = alerts m"
    by (simp add: defs)
  show "alerts_sent (db (process_one ar e m)) = alerts_sent (db m) @
           (if fire then [\<lparr>al_hour_start = H, al_alert_type = ''hourly_limit_exceeded'',
                           al_total_spend = S,
                           al_limit_exceeded = float_sub ar S (hourly_limit m)\<rparr>] else [])"
    by (simp add: defs)
  show "map fst (dispatched (process_one ar e m)) = map fst (dispatched m) @
           (if fire then [\<lparr>hour_start = H, total_spend = S, limit = hourly_limit m,
                           overage = float_sub ar S (hourly_limit m), request_count = n\<rparr>] else [])"
    by (simp add: defs)
qed

section \<open>Runs within one hour\<close>

lemma find_snoc:
  "List.find P (xs @ [x]) =
     (case List.find P xs of None \<Rightarrow> (if P x then Some x else None) | Some y \<Rightarrow> Some y)"
  by (induction xs) simp_all

lemma first_exceeding_Suc:
  "first_exceeding ar T C (Suc n) =
     (case first_exceeding ar T C n of
        None \<Rightarrow> (if T < sql_sum ar (replicate (Suc n) C) then Some (Suc n) else None)
      | Some k \<Rightarrow> Some k)"
proof -
  have "[1..<Suc (Suc n)] = [1..<Suc n] @ [Suc n]" by simp
  then show ?thesis unfolding first_exceeding_def by (simp only: find_snoc)
qed

lemma first_exceeding_0: "first_exceeding ar T C 0 = None"
  by (simp add: first_exceeding_def)



lemma bucket_rows_snoc:
  "api_requests d' = api_requests d @ [r] \<Longrightarrow> H \<le> timestamp r \<and> timestamp r < H + hour \<Longrightarrow>
   bucket_rows H d' = bucket_rows H d @ [r]"
  by (simp add: bucket_rows_def rows_between_def)

lemma was_alert_sent_append:
  "alerts_sent d' = alerts_sent d @ xs \<Longrightarrow>
   was_alert_sent H ty d' =
     (was_alert_sent H ty d \<or> (\<exists>a\<in>set xs. al_hour_start a = H \<and> al_alert_type a = ty))"
  by (auto simp add: was_alert_sent_def filter_empty_conv)

lemma run_same_hour:
  fixes ar :: arithmetic
  assumes C: "0 < number_value C"
    and empty: "bucket_rows H (db m0) = []"
    and unsent: "\<not> was_alert_sent H ''hourly_limit_exceeded'' (db m0)"
  shows "list_all (same_hour H C) es \<Longrightarrow> distinct (map delivery_id es) \<Longrightarrow>
     set (map delivery_id es) \<inter> request_ids (db m0) = {} \<Longrightarrow>
     map cost_usd (bucket_rows H (db (process_all ar es m0))) = replicate (length es) C \<and>
     request_ids (db (process_all ar es m0)) = request_ids (db m0) \<union> set (map delivery_id es) \<and>
     hourly_limit (process_all ar es m0) = hourly_limit m0 \<and>
     (was_alert_sent H ''hourly_limit_exceeded'' (db (process_all ar es m0)) \<longleftrightarrow>
        first_exceeding ar (hourly_limit m0) C (length es) \<noteq> None) \<and>
     map fst (dispatched (process_all ar es m0)) = map fst (dispatched m0) @
       (case first_exceeding ar (hourly_limit m0) C (length es) of
          None \<Rightarrow> [] | Some k \<Rightarrow> [alert_at ar H (hourly_limit m0) C k]) \<and>
     (es \<noteq> [] \<longrightarrow> hourly_spending (db (process_all ar es m0)) H =
        Some (sql_sum ar (replicate (length es) C), length es))"
proof (induction es rule: rev_induct)
  case Nil
  show ?case using empty unsent by (simp add: first_exceeding_0)
next
  case (snoc e es)
  let ?m = "process_all ar es m0"
  let ?T = "hourly_limit m0"
  let ?n = "length es"
  let ?S = "sql_sum ar (replicate (Suc ?n) C)"
  have pre: "list_all (same_hour H C) es" "distinct (map delivery_id es)"
    "set (map delivery_id es) \<inter> request_ids (db m0) = {}"
    using snoc.prems by auto
  note ih = snoc.IH[OF pre]
  have ih1: "map cost_usd (bucket_rows H (db ?m)) = replicate ?n C" using ih by blast
  have ih2: "request_ids (db ?m) = request_ids (db m0) \<union> set (map delivery_id es)"
    using ih by blast
  have lim: "hourly_limit ?m = ?T" using ih by blast
  have sent_iff: "was_alert_sent H ''hourly_limit_exceeded'' (db ?m) \<longleftrightarrow>
      first_exceeding ar ?T C ?n \<noteq> None" using ih by blast
  have ih5: "map fst (dispatched ?m) = map fst (dispatched m0) @
       (case first_exceeding ar ?T C ?n of None \<Rightarrow> [] | Some k \<Rightarrow> [alert_at ar H ?T C k])"
    using ih by blast
  have e: "same_hour H C e" using snoc.prems(1) by simp
  then obtain k where k: "w_request_id (d_payload e) = Some k"
    by (auto simp add: same_hour_def)
  have cost: "cost_of (metadata_of (d_payload e)) = C"
    and st: "storable (d_payload e)"
    and b1: "get_current_hour (d_clock1 e) = H" and b2: "get_current_hour (d_clock2 e) = H"
    using e by (simp_all add: same_hour_def)
  have cpos: "0 < number_value (cost_of (metadata_of (d_payload e)))" using C cost by simp
  have kd: "delivery_id e = Some k" using k by (simp add: delivery_id_def)
  have "Some k \<notin> request_ids (db m0)" using snoc.prems(3) kd by auto
  moreover have "Some k \<notin> set (map delivery_id es)"
    using snoc.prems(2) kd by auto
  ultimately have fresh: "Some k \<notin> set (map request_id (api_requests (db ?m)))"
    using ih2 by (simp add: request_ids_def)
  note step = process_one_fresh[OF cpos st k fresh b1 b2, of ar]
  have S: "sql_sum ar (map cost_usd (bucket_rows H (db ?m)) @ [cost_of (metadata_of (d_payload e))]) = ?S"
    unfolding ih1 cost by (simp add: replicate_append_same)
  have len: "length (bucket_rows H (db ?m)) = ?n"
  proof -
    have "length (map cost_usd (bucket_rows H (db ?m))) = ?n" unfolding ih1 by simp
    then show ?thesis by simp
  qed
  let ?fire = "?T < ?S \<and> first_exceeding ar ?T C ?n = None"
  have fire_eq: "(hourly_limit ?m <
        sql_sum ar (map cost_usd (bucket_rows H (db ?m)) @ [cost_of (metadata_of (d_payload e))]) \<and>
         \<not> was_alert_sent H ''hourly_limit_exceeded'' (db ?m)) \<longleftrightarrow> ?fire"
    unfolding lim S sent_iff by simp
  have inb: "H \<le> timestamp (stored_row (d_payload e) (d_clock1 e)) \<and>
             timestamp (stored_row (d_payload e) (d_clock1 e)) < H + hour"
    using get_current_hour_bounds[OF b1] by (simp add: stored_row_def)
  have rows: "bucket_rows H (db (process_one ar e ?m)) =
      bucket_rows H (db ?m) @ [stored_row (d_payload e) (d_clock1 e)]"
    using step(1) inb by (rule bucket_rows_snoc)
  have c1: "map cost_usd (bucket_rows H (db (process_one ar e ?m))) = replicate (length (es @ [e])) C"
    unfolding rows using ih1 cost by (simp add: stored_row_def replicate_append_same)
  have c2: "request_ids (db (process_one ar e ?m)) =
       request_ids (db m0) \<union> set (map delivery_id (es @ [e]))"
    using step(1) ih2 kd k by (auto simp add: request_ids_def stored_row_def)
  have c3: "hourly_limit (process_one ar e ?m) = ?T" using step(3) lim by simp
  have a5: "alerts_sent (db (process_one ar e ?m)) = alerts_sent (db ?m) @
           (if ?fire then [\<lparr>al_hour_start = H, al_alert_type = ''hourly_limit_exceeded'',
              al_total_spend = ?S, al_limit_exceeded = float_sub ar ?S ?T\<rparr>] else [])"
    using step(5)[unfolded fire_eq, unfolded S lim] .
  have fx: "first_exceeding ar ?T C (Suc ?n) =
     (case first_exceeding ar ?T C ?n of
        None \<Rightarrow> (if ?T < ?S then Some (Suc ?n) else None) | Some j \<Rightarrow> Some j)"
    by (rule first_exceeding_Suc)
  have c4: "was_alert_sent H ''hourly_limit_exceeded'' (db (process_one ar e ?m)) \<longleftrightarrow>
        first_exceeding ar ?T C (length (es @ [e])) \<noteq> None"
  proof (cases "first_exceeding ar ?T C ?n")
    case None
    then show ?thesis
      using was_alert_sent_append[OF a5, of H "''hourly_limit_exceeded''"] sent_iff fx
      by simp
  next
    case (Some j)
    then show ?thesis
      using was_alert_sent_append[OF a5, of H "''hourly_limit_exceeded''"] sent_iff fx
      by simp
  qed
  have d: "map fst (dispatched (process_one ar e ?m)) = map fst (dispatched ?m) @
       (if ?fire then [\<lparr>hour_start = H, total_spend = ?S, limit = ?T,
          overage = float_sub ar ?S ?T, request_count = Suc ?n\<rparr>] else [])"
    using step(6)[unfolded fire_eq, unfolded S lim len] .
  have c5: "map fst (dispatched (process_one ar e ?m)) = map fst (dispatched m0) @
       (case first_exceeding ar ?T C (length (es @ [e])) of
          None \<Rightarrow> [] | Some k \<Rightarrow> [alert_at ar H ?T C k])"
  proof (cases "first_exceeding ar ?T C ?n")
    case None
    then show ?thesis using d ih5 fx by (simp add: alert_at_def)
  next
    case (Some j)
    then show ?thesis using d ih5 fx by simp
  qed
  have c6: "es @ [e] \<noteq> [] \<longrightarrow> hourly_spending (db (process_one ar e ?m)) H =
        Some (sql_sum ar (replicate (length (es @ [e])) C), length (es @ [e]))"
    using step(2) S len by simp
  show ?case unfolding process_all_snoc
    by (intro conjI) (rule c1, rule c2, rule c3, rule c4, rule c5, rule c6)
qed

section \<open>The alert table\<close>

lemma was_alert_sent_keys:
  "was_alert_sent hs ty d \<longleftrightarrow> (hs, ty) \<in> set (alert_keys d)"
  by (auto simp add: was_alert_sent_def alert_keys_def filter_empty_conv image_iff)

lemma alert_keys_record:
  "alert_keys (record_alert_sent hs ty a b d) = alert_keys d @ [(hs, ty)]"
  by (simp add: alert_keys_def record_alert_sent_def)

lemma dispatch_and_record_keys:
  "alert_keys (db (dispatch_and_record ar net hs spend m)) =
     alert_keys (db m) @ [(hs, ''hourly_limit_exceeded'')]"
  by (simp add: dispatch_and_record_parts(1) alert_keys_record)

lemma dispatch_and_record_trace:
  "dispatched_for H (dispatch_and_record ar net hs spend m) =
     dispatched_for H m @
       (if hs = H then [last (dispatched (dispatch_and_record ar net hs spend m))] else [])"
  by (simp add: dispatch_and_record_def dispatched_for_def Let_def)

lemma handle_limit_exceeded_keys:
  "distinct (alert_keys (db m)) \<Longrightarrow>
   distinct (alert_keys (db (handle_limit_exceeded ar net hs spend m)))"
  by (cases "was_alert_sent hs ''hourly_limit_exceeded'' (db m)")
     (simp_all add: handle_limit_exceeded_sent handle_limit_exceeded_unsent
        dispatch_and_record_keys was_alert_sent_keys)

lemma handle_limit_exceeded_mono:
  "was_alert_sent H ty (db m) \<Longrightarrow>
   was_alert_sent H ty (db (handle_limit_exceeded ar net hs spend m))"
  by (cases "was_alert_sent hs ''hourly_limit_exceeded'' (db m)")
     (simp_all add: handle_limit_exceeded_sent handle_limit_exceeded_unsent
        dispatch_and_record_keys was_alert_sent_keys)

lemma handle_limit_exceeded_quiet:
  "was_alert_sent H ''hourly_limit_exceeded'' (db m) \<Longrightarrow>
   dispatched_for H (handle_limit_exceeded ar net hs spend m) = dispatched_for H m"
  by (cases "was_alert_sent hs ''hourly_limit_exceeded'' (db m)")
     (auto simp add: handle_limit_exceeded_sent handle_limit_exceeded_unsent
        dispatch_and_record_trace)

lemma process_one_cases:
  "process_one ar e m = m \<or>
   (\<exists>d. alerts_sent d = alerts_sent (db m) \<and>
      (process_one ar e m = m\<lparr>db := d\<rparr> \<or>
       (\<exists>hs spend. process_one ar e m =
          handle_limit_exceeded ar (d_net e) hs spend (m\<lparr>db := d\<rparr>))))"
proof -
  let ?d1 = "(db m)\<lparr>api_requests := api_requests (db m) @ [stored_row (d_payload e) (d_clock1 e)]\<rparr>"
  let ?h = "get_current_hour (d_clock2 e)"
  let ?d2 = "snd (update_hourly_aggregate ar ?h ?d1)"
  have keep: "alerts_sent ?d2 = alerts_sent (db m)"
    by (simp add: update_hourly_aggregate_def Let_def)
  have "process_one ar e m = m \<or> process_one ar e m = m\<lparr>db := ?d2\<rparr> \<or>
        process_one ar e m =
          handle_limit_exceeded ar (d_net e) ?h (fst (update_hourly_aggregate ar ?h ?d1))
            (m\<lparr>db := ?d2\<rparr>)"
    by (simp add: process_one_def process_webhook_data_def Let_def split_beta add_request_def
          stored_row_def)
  then show ?thesis using keep by blast
qed

lemma process_one_keys:
  "distinct (alert_keys (db m)) \<Longrightarrow> distinct (alert_keys (db (process_one ar e m)))"
proof -
  assume dm: "distinct (alert_keys (db m))"
  have k: "\<And>d. alerts_sent d = alerts_sent (db m) \<Longrightarrow> distinct (alert_keys (db (m\<lparr>db := d\<rparr>)))"
    using dm by (simp add: alert_keys_def)
  show ?thesis
    using process_one_cases[of ar e m] dm k handle_limit_exceeded_keys
    by (elim disjE exE conjE) auto
qed

lemma process_one_mono:
  "was_alert_sent H ty (db m) \<Longrightarrow> was_alert_sent H ty (db (process_one ar e m))"
proof -
  assume s: "was_alert_sent H ty (db m)"
  have k: "\<And>d. alerts_sent d = alerts_sent (db m) \<Longrightarrow> was_alert_sent H ty (db (m\<lparr>db := d\<rparr>))"
    using s by (simp add: was_alert_sent_def)
  show ?thesis
    using process_one_cases[of ar e m] s k handle_limit_exceeded_mono
    by (elim disjE exE conjE) auto
qed

lemma process_one_quiet:
  "was_alert_sent H ''hourly_limit_exceeded'' (db m) \<Longrightarrow>
   dispatched_for H (process_one ar e m) = dispatched_for H m"
proof -
  assume s: "was_alert_sent H ''hourly_limit_exceeded'' (db m)"
  have k: "\<And>d. alerts_sent d = alerts_sent (db m) \<Longrightarrow>
      was_alert_sent H ''hourly_limit_exceeded'' (db (m\<lparr>db := d\<rparr>))"
    using s by (simp add: was_alert_sent_def)
  have q: "\<And>d. dispatched_for H (m\<lparr>db := d\<rparr>) = dispatched_for H m"
    by (simp add: dispatched_for_def)
  show ?thesis
    using process_one_cases[of ar e m] k q handle_limit_exceeded_quiet
    by (elim disjE exE conjE) (simp_all del: One_nat_def)
qed

lemma process_all_keys:
  "distinct (alert_keys (db m)) \<Longrightarrow> distinct (alert_keys (db (process_all ar es m)))"
  by (induction es arbitrary: m) (simp_all add: process_one_keys)

lemma process_all_quiet:
  "was_alert_sent H ''hourly_limit_exceeded'' (db m) \<Longrightarrow>
   dispatched_for H (process_all ar es m) = dispatched_for H m \<and>
   was_alert_sent H ''hourly_limit_exceeded'' (db (process_all ar es m))"
  by (induction es arbitrary: m) (simp_all add: process_one_quiet process_one_mono)

section \<open>Schedules of callers\<close>

lemma check_then_act:
  assumes "i < length cs" and "c_progress (cs ! i) = Entered"
  shows "run_schedule ar (i # i # sched) (cs, m) =
     run_schedule ar sched
       (cs[i := returned (\<not> was_alert_sent (c_hour_start (cs ! i)) ''hourly_limit_exceeded'' (db m))
                 (cs ! i)],
        handle_limit_exceeded ar (c_net (cs ! i)) (c_hour_start (cs ! i))
          (c_total_spend (cs ! i)) m)"
  using assms
  by (simp add: advance_def returned_def handle_limit_exceeded_def)

lemma serial_from_step: "k < n \<Longrightarrow> serial_from k n = k # k # serial_from (Suc k) n"
  by (simp add: serial_from_def upt_conv_Cons)

lemma serial_from_done: "serial_from n n = []"
  by (simp add: serial_from_def)

lemma serial_after_alert:
  assumes sent: "was_alert_sent H ''hourly_limit_exceeded'' (db m)"
  shows "k \<le> length cs \<Longrightarrow>
     \<forall>i. k \<le> i \<and> i < length cs \<longrightarrow> c_hour_start (cs ! i) = H \<and> c_progress (cs ! i) = Entered \<Longrightarrow>
     run_schedule ar (serial_from k (length cs)) (cs, m) =
       (take k cs @ map (returned False) (drop k cs), m)"
proof (induction "length cs - k" arbitrary: k cs)
  case 0
  then have "k = length cs" by simp
  then show ?case by (simp add: serial_from_done)
next
  case (Suc d)
  then have kl: "k < length cs" by simp
  have ck: "c_hour_start (cs ! k) = H" "c_progress (cs ! k) = Entered"
    using Suc.prems(2) kl by auto
  let ?cs = "cs[k := returned False (cs ! k)]"
  have step: "run_schedule ar (serial_from k (length cs)) (cs, m) =
      run_schedule ar (serial_from (Suc k) (length ?cs)) (?cs, m)"
    unfolding serial_from_step[OF kl] check_then_act[OF kl ck(2)] ck(1)
    using sent by (simp add: handle_limit_exceeded_sent)
  have d: "d = length ?cs - Suc k" using Suc.hyps(2) by simp
  have rest: "\<forall>i. Suc k \<le> i \<and> i < length ?cs \<longrightarrow>
      c_hour_start (?cs ! i) = H \<and> c_progress (?cs ! i) = Entered"
    using Suc.prems(2) by simp
  have "run_schedule ar (serial_from (Suc k) (length ?cs)) (?cs, m) =
      (take (Suc k) ?cs @ map (returned False) (drop (Suc k) ?cs), m)"
    using Suc.hyps(1)[OF d _ rest] kl by simp
  also have "take (Suc k) ?cs = take k cs @ [returned False (cs ! k)]"
    using kl by (simp add: take_Suc_conv_app_nth)
  also have "drop (Suc k) ?cs = drop (Suc k) cs" by simp
  finally show ?case
    unfolding step using kl by (simp add: Cons_nth_drop_Suc[symmetric])
qed

section \<open>Evaluation on the sample inputs\<close>

lemma sum_of_2_5:
  "sql_sum binary64_arithmetic [JFloat (5 / 2)] = 5 / 2"
  "sql_sum binary64_arithmetic [JFloat (5 / 2), JFloat (5 / 2)] = 5"
  "sql_sum binary64_arithmetic [JFloat (5 / 2), JFloat (5 / 2), JFloat (5 / 2)] = 15 / 2"
  "sql_sum binary64_arithmetic [JFloat (5 / 2), JFloat (5 / 2), JFloat (5 / 2), JFloat (5 / 2)] = 10"
  "sql_sum binary64_arithmetic
     [JFloat (5 / 2), JFloat (5 / 2), JFloat (5 / 2), JFloat (5 / 2), JFloat (5 / 2)] = 25 / 2"
  by code_simp+


lemma sum_of_one:
  "sql_sum binary64_arithmetic [JFloat 5] = 5"
  "sql_sum binary64_arithmetic [JFloat (25 / 2)] = 25 / 2"
  "sql_sum binary64_arithmetic [JFloat (- float_0_01)] = - float_0_01"
  by code_simp+

lemma sub_samples:
  "float_sub binary64_arithmetic (25 / 2) 10 = 5 / 2"
  "float_sub binary64_arithmetic 15 10 = 5"
  "float_sub binary64_arithmetic float_above_0_3 float_0_3 = float_above_0_3 - float_0_3"
  by code_simp+

lemma first_exceeding_samples:
  "first_exceeding binary64_arithmetic 10 (JFloat (5 / 2)) 4 = None"
  "first_exceeding binary64_arithmetic 10 (JFloat (5 / 2)) 5 = Some 5"
  by (simp_all add: first_exceeding_def upt_rec sum_of_2_5)


lemmas monitor_eval = delivered_def delivered_across_def sample_webhook_data_def new_monitor_def
  init_database_def process_one_def process_webhook_data_def metadata_of_def cost_of_def
  add_request_def int64_def Let_def get_current_hour_def hour_def update_hourly_aggregate_def
  coalesce_sum_def rows_between_def handle_limit_exceeded_def dispatch_and_record_def
  was_alert_sent_def record_alert_sent_def get_request_count_for_hour_def send_alerts_def
  send_slack_alert_def send_email_alert_def truthy_def slack_only_def offline_def

lemma five_requests_same_hour: "list_all (same_hour 0 (JFloat (5 / 2))) five_requests"
  by (simp add: five_requests_def same_hour_def storable_def int64_def delivered_def
        sample_webhook_data_def cost_of_def metadata_of_def get_current_hour_def hour_def)

lemma five_requests_distinct: "distinct (map delivery_id five_requests)"
  by (simp add: five_requests_def delivery_id_def delivered_def sample_webhook_data_def)

lemma new_monitor_fresh:
  "request_ids (db (new_monitor a l)) = {}" "bucket_rows H (db (new_monitor a l)) = []"
  "\<not> was_alert_sent H ty (db (new_monitor a l))" "dispatched (new_monitor a l) = []"
  "hourly_limit (new_monitor a l) = l"
  by (simp_all add: new_monitor_def init_database_def request_ids_def bucket_rows_def
        rows_between_def was_alert_sent_def)

section \<open>Idempotent ingestion\<close>




section \<open>Threshold and alerts\<close>





lemma first_ingest_value:
  "first_ingest = \<lparr>db = \<lparr>api_requests = [stored_row (sample_webhook_data ''abc'' (JFloat 5)) 10],
       hourly_spending = [0 \<mapsto> (5, 1)], alerts_sent = []\<rparr>,
     alerts = slack_only, hourly_limit = 10, dispatched = []\<rparr>"
  by (simp add: first_ingest_def monitor_eval stored_row_def sum_of_one)

lemma first_log_value:
  "first_log = \<lparr>spending_log = [\<lparr>sl_request_id = Some ''r1'', sl_timestamp = 10, sl_hour_bucket = 0,
       sl_cost = JFloat (25 / 2), sl_model = ''gpt-4'', sl_user_id = Some ''test-user-123'',
       sl_tokens_total = 150\<rparr>],
     hourly_alerts = [0 \<mapsto> \<lparr>total_cost = 25 / 2, alert_sent = False\<rparr>]\<rparr>"
  by (simp add: first_log_def log_spending_def sample_webhook_data_def new_tracker_def
        get_hour_bucket_def hour_def metadata_of_def cost_of_def int64_def Let_def
        coalesce_sum_def sum_of_one)

lemma log_spending_stores:
  assumes "bindable (cost_of (metadata_of wd))"
    and "int64 (case totalTokens (metadata_of wd) of None \<Rightarrow> 0 | Some x \<Rightarrow> x)"
  shows "\<exists>tot t'. log_spending ar wd now t = Inr (tot, t') \<and>
     spending_log t' \<noteq> [] \<and>
     sl_cost (last (spending_log t')) = cost_of (metadata_of wd) \<and>
     hourly_alerts t' (get_hour_bucket now) = Some \<lparr>total_cost = tot, alert_sent = False\<rparr>"
  using assms by (simp add: log_spending_def Let_def)

lemma log_spending_raises:
  "\<not> (bindable (cost_of (metadata_of wd)) \<and>
       int64 (case totalTokens (metadata_of wd) of None \<Rightarrow> 0 | Some x \<Rightarrow> x)) \<Longrightarrow>
   log_spending ar wd now t = Inl OverflowError"
  by (simp add: log_spending_def Let_def)

text \<open>
  C3, as the code has it. A run of ingests on a monitor whose alert table holds at most
  one row per \<open>(hour_start, alert_type)\<close> leaves at most one row per pair. What keeps
  the pairs apart is the check \<open>was_alert_sent\<close> made before the insert: when it
  answers yes \<open>handle_limit_exceeded\<close> changes nothing, while \<open>record_alert_sent\<close>
  itself adds its row to whatever the table holds.
\<close>

theorem alert_rows_unique_by_precheck:
  "(distinct (alert_keys (db m)) \<longrightarrow> distinct (alert_keys (db (process_all ar es m)))) \<and>
   (was_alert_sent hs ''hourly_limit_exceeded'' (db m) \<longrightarrow>
      handle_limit_exceeded ar net hs spend m = m) \<and>
   alert_keys (record_alert_sent hs ty a b d) = alert_keys d @ [(hs, ty)]"
  by (simp add: process_all_keys handle_limit_exceeded_sent alert_keys_record)

lemma five_requests_alerted:
  "was_alert_sent 0 ''hourly_limit_exceeded''
     (db (process_all binary64_arithmetic five_requests (new_monitor slack_only 10)))"
proof -
  let ?m = "new_monitor slack_only 10"
  have c: "0 < number_value (JFloat (5 / 2))" by simp
  have i: "set (map delivery_id five_requests) \<inter> request_ids (db ?m) = {}"
    by (simp add: new_monitor_fresh)
  have n: "length five_requests = 5" by (simp add: five_requests_def)
  have "was_alert_sent 0 ''hourly_limit_exceeded'' (db (process_all binary64_arithmetic five_requests ?m))
      \<longleftrightarrow> first_exceeding binary64_arithmetic (hourly_limit ?m) (JFloat (5 / 2))
            (length five_requests) \<noteq> None"
    using run_same_hour[OF c new_monitor_fresh(2) new_monitor_fresh(3) five_requests_same_hour
        five_requests_distinct i, of binary64_arithmetic]
    by blast
  then show ?thesis by (simp add: n new_monitor_fresh first_exceeding_samples)
qed

theorem alert_rows_unique_by_precheck_witness:
  "distinct (alert_keys (db (new_monitor slack_only 10))) \<and>
   distinct (alert_keys (db (process_all binary64_arithmetic five_requests
      (new_monitor slack_only 10)))) \<and>
   was_alert_sent 0 ''hourly_limit_exceeded''
     (db (process_all binary64_arithmetic five_requests (new_monitor slack_only 10))) \<and>
   handle_limit_exceeded binary64_arithmetic offline 0 15
     (process_all binary64_arithmetic five_requests (new_monitor slack_only 10)) =
     process_all binary64_arithmetic five_requests (new_monitor slack_only 10)"
proof -
  let ?m = "new_monitor slack_only 10"
  have d0: "distinct (alert_keys (db ?m))"
    by (simp add: alert_keys_def new_monitor_def init_database_def)
  show ?thesis
    using alert_rows_unique_by_precheck[of ?m binary64_arithmetic five_requests]
      alert_rows_unique_by_precheck[of "process_all binary64_arithmetic five_requests ?m"
        binary64_arithmetic "[]" 0 offline 15] d0 five_requests_alerted
    by blast
qed

theorem record_alert_sent_repeats_key:
  "alert_keys (record_alert_sent 0 ''hourly_limit_exceeded'' 15 5
     (record_alert_sent 0 ''hourly_limit_exceeded'' (25 / 2) (5 / 2) init_database)) =
     [(0, ''hourly_limit_exceeded''), (0, ''hourly_limit_exceeded'')]"
  by (simp add: alert_keys_def record_alert_sent_def init_database_def)

text \<open>
  C4. Once a caller of \<open>handle_limit_exceeded\<close> has passed the check, so that the alert
  of the hour is its to send, the alert row is written whatever the network does
  with the dispatch: the row does not depend on the outcome. The ingest reports
  success in every case, and no later ingest calls the notifier for that hour again.
\<close>

theorem alert_row_written_whatever_the_dispatch:
  assumes "\<not> was_alert_sent H ''hourly_limit_exceeded'' (db m)"
  shows "db (handle_limit_exceeded ar net H spend m) =
           record_alert_sent H ''hourly_limit_exceeded'' spend
             (float_sub ar spend (hourly_limit m)) (db m) \<and>
         was_alert_sent H ''hourly_limit_exceeded'' (db (handle_limit_exceeded ar net H spend m)) \<and>
         dispatched_for H (process_all ar es (handle_limit_exceeded ar net H spend m)) =
           dispatched_for H (handle_limit_exceeded ar net H spend m) \<and>
         fst (process_webhook_data ar wd n1 n2 net m)"
proof (intro conjI)
  let ?m' = "handle_limit_exceeded ar net H spend m"
  show r: "db ?m' = record_alert_sent H ''hourly_limit_exceeded'' spend
      (float_sub ar spend (hourly_limit m)) (db m)"
    using assms by (simp add: handle_limit_exceeded_unsent dispatch_and_record_parts)
  show s: "was_alert_sent H ''hourly_limit_exceeded'' (db ?m')"
    unfolding r by (simp add: was_alert_sent_keys alert_keys_record)
  show "dispatched_for H (process_all ar es ?m') = dispatched_for H ?m'"
    using s process_all_quiet by blast
  show "fst (process_webhook_data ar wd n1 n2 net m)"
    by (simp add: process_returns_true)
qed

theorem alert_row_written_whatever_the_dispatch_witness:
  "\<not> was_alert_sent 0 ''hourly_limit_exceeded'' (db (new_monitor slack_only 10)) \<and>
   db (handle_limit_exceeded binary64_arithmetic offline 0 (25 / 2) (new_monitor slack_only 10)) =
     record_alert_sent 0 ''hourly_limit_exceeded'' (25 / 2) (5 / 2) init_database \<and>
   db (handle_limit_exceeded binary64_arithmetic online 0 (25 / 2) (new_monitor slack_only 10)) =
     record_alert_sent 0 ''hourly_limit_exceeded'' (25 / 2) (5 / 2) init_database \<and>
   map snd (dispatched (handle_limit_exceeded binary64_arithmetic offline 0 (25 / 2)
      (new_monitor slack_only 10))) = [\<lparr>slack = False, email = False\<rparr>] \<and>
   map snd (dispatched (handle_limit_exceeded binary64_arithmetic online 0 (25 / 2)
      (new_monitor slack_only 10))) = [\<lparr>slack = True, email = False\<rparr>] \<and>
   dispatched_for 0 (process_all binary64_arithmetic [delivered ''r9'' (JFloat 5) 20]
      (handle_limit_exceeded binary64_arithmetic offline 0 (25 / 2) (new_monitor slack_only 10))) =
     dispatched_for 0
      (handle_limit_exceeded binary64_arithmetic offline 0 (25 / 2) (new_monitor slack_only 10))"
proof -
  let ?m = "new_monitor slack_only 10"
  have u: "\<not> was_alert_sent 0 ''hourly_limit_exceeded'' (db ?m)"
    by (simp add: new_monitor_fresh)
  have m: "db ?m = init_database" by (simp add: new_monitor_def)
  have t: "map snd (dispatched (handle_limit_exceeded binary64_arithmetic offline 0 (25 / 2) ?m)) =
      [\<lparr>slack = False, email = False\<rparr>]"
    "map snd (dispatched (handle_limit_exceeded binary64_arithmetic online 0 (25 / 2) ?m)) =
      [\<lparr>slack = True, email = False\<rparr>]"
    by (simp_all add: monitor_eval online_def)
  show ?thesis
    using alert_row_written_whatever_the_dispatch[OF u, of binary64_arithmetic offline "25 / 2"
        "[delivered ''r9'' (JFloat 5) 20]" "sample_webhook_data ''r1'' (JFloat (25 / 2))" 10 10]
      alert_row_written_whatever_the_dispatch[OF u, of binary64_arithmetic online "25 / 2"
        "[]" "sample_webhook_data ''r1'' (JFloat (25 / 2))" 10 10]
      u t
    by (simp add: m new_monitor_fresh sub_samples)
qed

text \<open>
  C5, as the code has it. When the key of an event is already in the ledger,
  \<open>process_webhook_data\<close> reports success right after the ignored insert and returns
  the monitor as it was: the ledger, every hour's aggregate, the alert table and the
  notifier trace are unchanged, so nothing is counted twice, and nothing is refreshed.
\<close>

theorem duplicate_delivery_skipped:
  "w_request_id wd = Some k \<Longrightarrow> Some k \<in> request_ids (db m) \<Longrightarrow>
   process_webhook_data ar wd n1 n2 net m = (True, m)"
  by (simp add: process_duplicate request_ids_def)

theorem duplicate_delivery_skipped_witness:
  "w_request_id (sample_webhook_data ''abc'' (JFloat 5)) = Some ''abc'' \<and>
   Some ''abc'' \<in> request_ids (db first_ingest) \<and>
   process_webhook_data binary64_arithmetic (sample_webhook_data ''abc'' (JFloat 5)) 20 20 offline
     first_ingest = (True, first_ingest)"
proof -
  have k: "w_request_id (sample_webhook_data ''abc'' (JFloat 5)) = Some ''abc''"
    by (simp add: sample_webhook_data_def)
  have i: "Some ''abc'' \<in> request_ids (db first_ingest)"
    by (simp add: first_ingest_value request_ids_def stored_row_def sample_webhook_data_def)
  show ?thesis
    using duplicate_delivery_skipped[OF k i, of binary64_arithmetic 20 20 offline] k i by simp
qed

theorem duplicate_delivery_not_refreshed:
  "hourly_spending (db (snd (process_webhook_data binary64_arithmetic
       (sample_webhook_data ''abc'' (JFloat 5)) (hour + 10) (hour + 10) offline first_ingest)))
     (get_current_hour (hour + 10)) = None \<and>
   hourly_spending (snd (update_hourly_aggregate binary64_arithmetic
       (get_current_hour (hour + 10)) (db first_ingest)))
     (get_current_hour (hour + 10)) = Some (0, 0)"
  by (simp add: first_ingest_value process_webhook_data_def add_request_def Let_def int64_def
        stored_row_def sample_webhook_data_def metadata_of_def cost_of_def
        update_hourly_aggregate_def coalesce_sum_def rows_between_def get_current_hour_def
        hour_def)

text \<open>
  C6, as the code has it. An event with a negative cost is not rejected on either
  path. The monitor skips it and reports success: no ledger row, no aggregate, no
  alert. The tracker has no check of the cost: when SQLite can bind the numbers it
  stores the row and writes the hour's total with the negative cost in it, and
  otherwise it raises with nothing stored.
\<close>

theorem negative_cost_skipped_or_stored:
  "number_value (cost_of (metadata_of wd)) < 0 \<Longrightarrow>
     process_webhook_data ar wd n1 n2 net m = (True, m) \<and>
     (bindable (cost_of (metadata_of wd)) \<and>
      int64 (case totalTokens (metadata_of wd) of None \<Rightarrow> 0 | Some x \<Rightarrow> x) \<longrightarrow>
        (\<exists>tot t'. log_spending ar wd now t = Inr (tot, t') \<and>
           spending_log t' \<noteq> [] \<and>
           sl_cost (last (spending_log t')) = cost_of (metadata_of wd) \<and>
           hourly_alerts t' (get_hour_bucket now) =
             Some \<lparr>total_cost = tot, alert_sent = False\<rparr>)) \<and>
     (\<not> (bindable (cost_of (metadata_of wd)) \<and>
         int64 (case totalTokens (metadata_of wd) of None \<Rightarrow> 0 | Some x \<Rightarrow> x)) \<longrightarrow>
        log_spending ar wd now t = Inl OverflowError)"
  using log_spending_stores[of wd ar now t] log_spending_raises[of wd ar now t]
  by (simp add: process_skip)

lemma float_0_01_pos: "0 < float_0_01"
  by (simp add: float_0_01_def)

lemma negative_sample:
  "cost_of (metadata_of (sample_webhook_data ''neg'' (JFloat (- float_0_01)))) =
     JFloat (- float_0_01)"
  "number_value (JFloat (- float_0_01)) < 0"
  "totalTokens (metadata_of (sample_webhook_data ''neg'' (JFloat (- float_0_01)))) = Some 150"
  by (simp_all add: sample_webhook_data_def metadata_of_def cost_of_def float_0_01_pos)

theorem negative_cost_skipped_or_stored_witness:
  "number_value (cost_of (metadata_of (sample_webhook_data ''neg'' (JFloat (- float_0_01))))) < 0 \<and>
   process_webhook_data binary64_arithmetic (sample_webhook_data ''neg'' (JFloat (- float_0_01)))
     10 10 offline first_ingest = (True, first_ingest) \<and>
   bindable (cost_of (metadata_of (sample_webhook_data ''neg'' (JFloat (- float_0_01))))) \<and>
   (\<exists>tot t'. log_spending binary64_arithmetic
        (sample_webhook_data ''neg'' (JFloat (- float_0_01))) 10 first_log = Inr (tot, t') \<and>
      sl_cost (last (spending_log t')) = JFloat (- float_0_01)) \<and>
   \<not> bindable (cost_of (metadata_of (sample_webhook_data ''neg'' (JInt (- (2 ^ 63) - 1))))) \<and>
   log_spending binary64_arithmetic (sample_webhook_data ''neg'' (JInt (- (2 ^ 63) - 1))) 10
     first_log = Inl OverflowError"
proof -
  let ?wd = "sample_webhook_data ''neg'' (JFloat (- float_0_01))"
  let ?big = "sample_webhook_data ''neg'' (JInt (- (2 ^ 63) - 1))"
  have n: "number_value (cost_of (metadata_of ?wd)) < 0"
    by (simp add: negative_sample float_0_01_pos)
  have b: "bindable (cost_of (metadata_of ?wd))" by (simp add: negative_sample)
  have i: "int64 (case totalTokens (metadata_of ?wd) of None \<Rightarrow> 0 | Some x \<Rightarrow> x)"
    by (simp add: negative_sample int64_def)
  have c: "cost_of (metadata_of ?big) = JInt (- (2 ^ 63) - 1)"
    by (simp add: sample_webhook_data_def metadata_of_def cost_of_def)
  have n2: "number_value (cost_of (metadata_of ?big)) < 0" unfolding c by simp
  have nb: "\<not> bindable (cost_of (metadata_of ?big))" unfolding c by (simp add: int64_def)
  show ?thesis
    using negative_cost_skipped_or_stored[OF n, of binary64_arithmetic 10 10 offline first_ingest
        10 first_log]
      negative_cost_skipped_or_stored[OF n2, of binary64_arithmetic 10 10 offline first_ingest
        10 first_log]
      n b i nb
    by (auto simp add: negative_sample float_0_01_pos)
qed

theorem negative_cost_reported_as_success:
  "fst (process_webhook_data binary64_arithmetic
          (sample_webhook_data ''neg'' (JFloat (- float_0_01))) 10 10 offline
          (new_monitor slack_only 10)) = True \<and>
   snd (process_webhook_data binary64_arithmetic
          (sample_webhook_data ''neg'' (JFloat (- float_0_01))) 10 10 offline
          (new_monitor slack_only 10)) = new_monitor slack_only 10 \<and>
   log_spending binary64_arithmetic (sample_webhook_data ''neg'' (JFloat (- float_0_01))) 10
     new_tracker =
     Inr (- float_0_01,
       \<lparr>spending_log = [\<lparr>sl_request_id = Some ''neg'', sl_timestamp = 10, sl_hour_bucket = 0,
          sl_cost = JFloat (- float_0_01), sl_model = ''gpt-4'',
          sl_user_id = Some ''test-user-123'', sl_tokens_total = 150\<rparr>],
        hourly_alerts = [0 \<mapsto> \<lparr>total_cost = - float_0_01, alert_sent = False\<rparr>]\<rparr>)"
proof -
  have p: "process_webhook_data binary64_arithmetic
      (sample_webhook_data ''neg'' (JFloat (- float_0_01))) 10 10 offline
      (new_monitor slack_only 10) = (True, new_monitor slack_only 10)"
    by (rule process_skip) (simp add: negative_sample float_0_01_pos less_imp_le)
  have l: "log_spending binary64_arithmetic (sample_webhook_data ''neg'' (JFloat (- float_0_01))) 10
     new_tracker =
     Inr (- float_0_01,
       \<lparr>spending_log = [\<lparr>sl_request_id = Some ''neg'', sl_timestamp = 10, sl_hour_bucket = 0,
          sl_cost = JFloat (- float_0_01), sl_model = ''gpt-4'',
          sl_user_id = Some ''test-user-123'', sl_tokens_total = 150\<rparr>],
        hourly_alerts = [0 \<mapsto> \<lparr>total_cost = - float_0_01, alert_sent = False\<rparr>]\<rparr>)"
    by (simp add: log_spending_def sample_webhook_data_def new_tracker_def get_hour_bucket_def
          hour_def metadata_of_def cost_of_def int64_def Let_def coalesce_sum_def sum_of_one)
  show ?thesis using p l by simp
qed

text \<open>
  C7. The monitor accepts an event whose cost is zero, negative or absent and skips
  it: it reports success, the server answers 200 when the signature verifies, and the
  monitor, with its ledger and its aggregates, is unchanged.
\<close>

theorem unbillable_event_skipped_by_monitor:
  "number_value (cost_of (metadata_of wd)) \<le> 0 \<Longrightarrow>
     process_webhook_data ar wd n1 n2 net m = (True, m) \<and>
     (verify_webhook_signature hmac_hex body signature secret \<longrightarrow>
        handle_webhook ar hmac_hex secret body signature wd n1 n2 net m = (200, m))"
  by (simp add: process_skip handle_webhook_def)

theorem unbillable_event_skipped_by_monitor_witness:
  "number_value (cost_of (metadata_of (sample_webhook_data ''free'' (JInt 0)))) \<le> 0 \<and>
   process_webhook_data binary64_arithmetic (sample_webhook_data ''free'' (JInt 0)) 10 10 offline
     first_ingest = (True, first_ingest) \<and>
   verify_webhook_signature stub_hmac ''{}'' (Some ''s{}'') (Some ''s'') \<and>
   handle_webhook binary64_arithmetic stub_hmac (Some ''s'') ''{}'' (Some ''s{}'')
     (sample_webhook_data ''free'' (JInt 0)) 10 10 offline first_ingest = (200, first_ingest)"
proof -
  have c: "number_value (cost_of (metadata_of (sample_webhook_data ''free'' (JInt 0)))) \<le> 0"
    by (simp add: sample_webhook_data_def metadata_of_def cost_of_def)
  have v: "verify_webhook_signature stub_hmac ''{}'' (Some ''s{}'') (Some ''s'')"
    by (simp add: verify_webhook_signature_def stub_hmac_def truthy_def)
  show ?thesis
    using unbillable_event_skipped_by_monitor[OF c, of binary64_arithmetic 10 10 offline
        first_ingest stub_hmac "''{}''" "Some ''s{}''" "Some ''s''"] c v
    by simp
qed

text \<open>
  C8, as the code has it. With no secret configured (unset or empty) the check of
  main.py accepts every payload and signature. The check of webhook_server.py
  refuses every payload and signature when the secret is missing or empty, and also
  when the signature is, and the server then answers 401 without touching the monitor.
\<close>

theorem unset_secret_open_in_main_closed_in_server:
  "(\<not> truthy (WEBHOOK_SECRET cfg) \<longrightarrow>
      verify_webhook_signature_main hmac_hex cfg payload sig) \<and>
   (\<not> truthy secret \<longrightarrow>
      \<not> verify_webhook_signature hmac_hex payload signature secret \<and>
      handle_webhook ar hmac_hex secret payload signature wd n1 n2 net m = (401, m)) \<and>
   (\<not> truthy signature \<longrightarrow>
      \<not> verify_webhook_signature hmac_hex payload signature secret \<and>
      handle_webhook ar hmac_hex secret payload signature wd n1 n2 net m = (401, m))"
  by (simp add: verify_webhook_signature_main_def verify_webhook_signature_def handle_webhook_def)

theorem unset_secret_open_in_main_closed_in_server_witness:
  "\<not> truthy (WEBHOOK_SECRET sample_config) \<and>
   verify_webhook_signature_main stub_hmac sample_config ''{}'' ''not-a-signature'' \<and>
   \<not> truthy None \<and> \<not> truthy (Some []) \<and>
   handle_webhook binary64_arithmetic stub_hmac None ''{}'' (Some ''not-a-signature'')
     (sample_webhook_data ''r1'' (JFloat 5)) 10 10 offline first_ingest = (401, first_ingest) \<and>
   handle_webhook binary64_arithmetic stub_hmac (Some ''s'') ''{}'' None
     (sample_webhook_data ''r1'' (JFloat 5)) 10 10 offline first_ingest = (401, first_ingest) \<and>
   handle_webhook binary64_arithmetic stub_hmac (Some ''s'') ''{}'' (Some [])
     (sample_webhook_data ''r1'' (JFloat 5)) 10 10 offline first_ingest = (401, first_ingest)"
proof -
  have a: "\<not> truthy (WEBHOOK_SECRET sample_config)" by (simp add: sample_config_def truthy_def)
  have b: "\<not> truthy None" "\<not> truthy (Some [])" by (simp_all add: truthy_def)
  show ?thesis
    using unset_secret_open_in_main_closed_in_server[of sample_config stub_hmac "''{}''"
        "''not-a-signature''" None "Some ''not-a-signature''" binary64_arithmetic
        "sample_webhook_data ''r1'' (JFloat 5)" 10 10 offline first_ingest]
      unset_secret_open_in_main_closed_in_server[of sample_config stub_hmac "''{}''"
        "''not-a-signature''" "Some ''s''" None binary64_arithmetic
        "sample_webhook_data ''r1'' (JFloat 5)" 10 10 offline first_ingest]
      unset_secret_open_in_main_closed_in_server[of sample_config stub_hmac "''{}''"
        "''not-a-signature''" "Some ''s''" "Some []" binary64_arithmetic
        "sample_webhook_data ''r1'' (JFloat 5)" 10 10 offline first_ingest]
      a b
    by simp
qed

theorem unset_secret_refused_by_server:
  "verify_webhook_signature stub_hmac ''{}'' (Some ''s{}'') None = False \<and>
   verify_webhook_signature stub_hmac ''{}'' (Some ''s{}'') (Some []) = False"
  by (simp add: verify_webhook_signature_def truthy_def)

text \<open>
  C10. An event whose \<open>request_id\<close> is absent is reported as processed, and neither the
  ledger nor the aggregate nor the alert table nor the notifier trace changes: the
  insert stores nothing, ignored under the NOT NULL constraint, and \<open>add_request\<close>
  answers False, which the monitor takes for a duplicate.
\<close>

theorem absent_request_id_dropped:
  "w_request_id wd = None \<Longrightarrow>
     process_webhook_data ar wd n1 n2 net m = (True, m) \<and>
     add_request (stored_row wd n1) (db m) = (False, db m)"
  by (simp add: process_webhook_data_def add_request_def Let_def stored_row_def)

theorem absent_request_id_dropped_witness:
  "w_request_id ((sample_webhook_data [] (JFloat (1 / 16)))\<lparr>w_request_id := None\<rparr>) = None \<and>
   process_webhook_data binary64_arithmetic
     ((sample_webhook_data [] (JFloat (1 / 16)))\<lparr>w_request_id := None\<rparr>) 10 10 offline
     (new_monitor slack_only 10) = (True, new_monitor slack_only 10) \<and>
   0 < number_value (cost_of (metadata_of
     ((sample_webhook_data [] (JFloat (1 / 16)))\<lparr>w_request_id := None\<rparr>)))"
  using absent_request_id_dropped[of "(sample_webhook_data [] (JFloat (1 / 16)))\<lparr>w_request_id := None\<rparr>"
      binary64_arithmetic 10 10 offline "new_monitor slack_only 10"]
  by (simp add: sample_webhook_data_def cost_of_def metadata_of_def)

section \<open>Callers at the same time\<close>

text \<open>
  C9, as the code has it. When callers of \<open>handle_limit_exceeded\<close> for one hour run one
  after another, each making its check and acting on it before the next moves, the
  first one dispatches the alert and records it and all the others find it recorded:
  one notifier call and one alert row for the hour. Nothing makes the check and the
  insert one step, so this holds for callers that take turns only.
\<close>

theorem one_dispatch_when_callers_take_turns:
  assumes "cs \<noteq> []"
    and "\<forall>c\<in>set cs. c_hour_start c = H \<and> c_progress c = Entered"
    and "\<not> was_alert_sent H ''hourly_limit_exceeded'' (db m)"
  shows "run_schedule ar (serial_from 0 (length cs)) (cs, m) =
           (returned True (hd cs) # map (returned False) (tl cs),
            dispatch_and_record ar (c_net (hd cs)) H (c_total_spend (hd cs)) m) \<and>
         length (dispatched_for H
           (dispatch_and_record ar (c_net (hd cs)) H (c_total_spend (hd cs)) m)) =
           Suc (length (dispatched_for H m)) \<and>
         length (filter (\<lambda>k. k = (H, ''hourly_limit_exceeded''))
           (alert_keys (db (dispatch_and_record ar (c_net (hd cs)) H (c_total_spend (hd cs)) m)))) = 1"
proof -
  obtain c cs' where cs: "cs = c # cs'" using assms(1) by (cases cs) auto
  let ?m1 = "dispatch_and_record ar (c_net c) H (c_total_spend c) m"
  let ?cs1 = "returned True c # cs'"
  have c0: "c_hour_start c = H" "c_progress c = Entered" using assms(2) cs by simp_all
  have i0: "0 < length cs" "c_progress (cs ! 0) = Entered" using cs c0 by simp_all
  have first: "run_schedule ar (serial_from 0 (length cs)) (cs, m) =
      run_schedule ar (serial_from (Suc 0) (length ?cs1)) (?cs1, ?m1)"
    unfolding serial_from_step[OF i0(1)] check_then_act[OF i0]
    using assms(3) cs c0 by (simp add: handle_limit_exceeded_unsent)
  have sent: "was_alert_sent H ''hourly_limit_exceeded'' (db ?m1)"
    by (simp add: was_alert_sent_keys dispatch_and_record_keys)
  have rest: "\<forall>i. Suc 0 \<le> i \<and> i < length ?cs1 \<longrightarrow>
      c_hour_start (?cs1 ! i) = H \<and> c_progress (?cs1 ! i) = Entered"
  proof (intro allI impI)
    fix i assume i: "Suc 0 \<le> i \<and> i < length ?cs1"
    then obtain j where j: "i = Suc j" "j < length cs'" by (cases i) auto
    then have "cs' ! j \<in> set cs" using cs by simp
    then show "c_hour_start (?cs1 ! i) = H \<and> c_progress (?cs1 ! i) = Entered"
      using assms(2) j by simp
  qed
  have run: "run_schedule ar (serial_from 0 (length cs)) (cs, m) =
      (returned True c # map (returned False) cs', ?m1)"
    unfolding first using serial_after_alert[OF sent _ rest, of ar] by simp
  have unkeyed: "filter (\<lambda>k. k = (H, ''hourly_limit_exceeded'')) (alert_keys (db m)) = []"
    using assms(3) by (auto simp add: was_alert_sent_keys filter_empty_conv)
  have n1: "length (dispatched_for H ?m1) = Suc (length (dispatched_for H m))"
    by (simp add: dispatch_and_record_trace)
  have n2: "length (filter (\<lambda>k. k = (H, ''hourly_limit_exceeded'')) (alert_keys (db ?m1))) = 1"
    by (simp add: dispatch_and_record_keys unkeyed)
  show ?thesis using run n1 n2 cs by simp
qed

theorem one_dispatch_when_callers_take_turns_witness:
  "[enter offline 0 (25 / 2), enter online 0 15, enter online 0 15] \<noteq> [] \<and>
   \<not> was_alert_sent 0 ''hourly_limit_exceeded'' (db (new_monitor slack_only 10)) \<and>
   serial_from 0 3 = [0, 0, 1, 1, 2, 2] \<and>
   map c_progress (fst (run_schedule binary64_arithmetic [0, 0, 1, 1, 2, 2]
      ([enter offline 0 (25 / 2), enter online 0 15, enter online 0 15],
       new_monitor slack_only 10))) = [Returned True, Returned False, Returned False] \<and>
   alert_keys (db (snd (run_schedule binary64_arithmetic [0, 0, 1, 1, 2, 2]
      ([enter offline 0 (25 / 2), enter online 0 15, enter online 0 15],
       new_monitor slack_only 10)))) = [(0, ''hourly_limit_exceeded'')]"
proof -
  let ?cs = "[enter offline 0 (25 / 2), enter online 0 15, enter online 0 15]"
  let ?m = "new_monitor slack_only 10"
  have h1: "?cs \<noteq> []" by simp
  have h2: "\<forall>c\<in>set ?cs. c_hour_start c = 0 \<and> c_progress c = Entered"
    by (simp add: enter_def)
  have h3: "\<not> was_alert_sent 0 ''hourly_limit_exceeded'' (db ?m)"
    by (simp add: new_monitor_fresh)
  have s: "serial_from 0 3 = [0, 0, 1, 1, 2, 2]"
    by (simp add: serial_from_def upt_rec)
  have k: "alert_keys (db ?m) = []"
    by (simp add: alert_keys_def new_monitor_def init_database_def)
  have len: "length ?cs = 3" by simp
  note run = one_dispatch_when_callers_take_turns[OF h1 h2 h3, of binary64_arithmetic,
      THEN conjunct1, unfolded len s]
  have p: "map c_progress (fst (run_schedule binary64_arithmetic [0, 0, 1, 1, 2, 2] (?cs, ?m))) =
      [Returned True, Returned False, Returned False]"
    unfolding run by (simp add: returned_def)
  have q: "alert_keys (db (snd (run_schedule binary64_arithmetic [0, 0, 1, 1, 2, 2] (?cs, ?m)))) =
      [(0, ''hourly_limit_exceeded'')]"
    unfolding run by (simp add: dispatch_and_record_keys k)
  show ?thesis using h1 h3 s p q by blast
qed

theorem two_callers_both_dispatch:
  "map c_progress (fst (run_schedule binary64_arithmetic [0, 1, 0, 1]
      ([enter offline 0 (25 / 2), enter online 0 15], new_monitor slack_only 10))) =
     [Returned True, Returned True] \<and>
   alert_keys (db (snd (run_schedule binary64_arithmetic [0, 1, 0, 1]
      ([enter offline 0 (25 / 2), enter online 0 15], new_monitor slack_only 10)))) =
     [(0, ''hourly_limit_exceeded''), (0, ''hourly_limit_exceeded'')] \<and>
   map (total_spend \<circ> fst) (dispatched (snd (run_schedule binary64_arithmetic [0, 1, 0, 1]
      ([enter offline 0 (25 / 2), enter online 0 15], new_monitor slack_only 10)))) =
     [25 / 2, 15]"
  by (simp add: enter_def advance_def new_monitor_def init_database_def was_alert_sent_def
        dispatch_and_record_def record_alert_sent_def alert_keys_def Let_def)

end
